theory Spec2Isabelle
  imports Main "HOL-Library.Sublist" "HOL-Library.AList"
begin

section \<open>Python values\<close>

text \<open>
  The values that flow through \<^verbatim>\<open>figstats/stats.py\<close>: parsed JSON bodies, table cells and
  item identifiers. A Python \<^verbatim>\<open>dict\<close> is an association list read with \<open>map_of\<close> and
  written with \<open>AList.update\<close>, which keeps a key at the place of its first insertion,
  as a \<^verbatim>\<open>dict\<close> does. JSON numbers with a fraction are not part of the model.
\<close>

datatype json =
    JNull
  | JBool bool
  | JInt int
  | JStr string
  | JArr "json list"
  | JObj "(string \<times> json) list"

datatype error =
    ValueError string
  | AttributeError string
  | KeyError string
  | TypeError string
  | TableError string
  | RequestFailure string

subsection \<open>\<^verbatim>\<open>str\<close> and \<^verbatim>\<open>repr\<close>\<close>

fun digits :: "nat \<Rightarrow> string" where
  "digits n = (if n < 10 then [char_of (48 + n)] else digits (n div 10) @ [char_of (48 + n mod 10)])"

declare digits.simps [simp del]

definition str_int :: "int \<Rightarrow> string" where
  "str_int i = (if i < 0 then CHR ''-'' # digits (nat (- i)) else digits (nat i))"

definition hex_digit :: "nat \<Rightarrow> char" where
  "hex_digit n = (if n < 10 then char_of (48 + n) else char_of (87 + n))"

definition repr_char :: "char \<Rightarrow> char \<Rightarrow> string" where
  "repr_char q c =
     (if c = CHR 0x5C then [CHR 0x5C, CHR 0x5C]
      else if c = q then [CHR 0x5C, q]
      else if c = CHR 0x09 then [CHR 0x5C, CHR ''t'']
      else if c = CHR 0x0A then [CHR 0x5C, CHR ''n'']
      else if c = CHR 0x0D then [CHR 0x5C, CHR ''r'']
      else if (of_char c :: nat) < 32 \<or> (of_char c :: nat) = 127
        then [CHR 0x5C, CHR ''x'', hex_digit (of_char c div 16), hex_digit (of_char c mod 16)]
      else [c])"

text \<open>
  \<^verbatim>\<open>repr\<close> of a string of ASCII characters: single quotes, unless the string holds a
  single quote and no double quote.
\<close>

definition repr_str :: "string \<Rightarrow> string" where
  "repr_str s =
     (let q = (if CHR 0x27 \<in> set s \<and> CHR 0x22 \<notin> set s then CHR 0x22 else CHR 0x27)
      in q # concat (map (repr_char q) s) @ [q])"

fun comma_join :: "string list \<Rightarrow> string" where
  "comma_join [] = []"
| "comma_join [x] = x"
| "comma_join (x # y # ys) = x @ '', '' @ comma_join (y # ys)"

primrec py_repr :: "json \<Rightarrow> string" where
  "py_repr JNull = ''None''"
| "py_repr (JBool b) = (if b then ''True'' else ''False'')"
| "py_repr (JInt i) = str_int i"
| "py_repr (JStr s) = repr_str s"
| "py_repr (JArr xs) = ''['' @ comma_join (map py_repr xs) @ '']''"
| "py_repr (JObj kvs) =
     ''{'' @ comma_join (map (\<lambda>(k, r). repr_str k @ '': '' @ r) (map (map_prod id py_repr) kvs)) @ ''}''"

definition py_str :: "json \<Rightarrow> string" where
  "py_str v = (case v of JStr s \<Rightarrow> s | _ \<Rightarrow> py_repr v)"

subsection \<open>Subscription \<^verbatim>\<open>result[key]\<close> with a string key\<close>

definition getitem :: "json \<Rightarrow> string \<Rightarrow> error + json" where
  "getitem v k =
     (case v of
        JObj kvs \<Rightarrow> (case map_of kvs k of Some x \<Rightarrow> Inr x | None \<Rightarrow> Inl (KeyError k))
      | _ \<Rightarrow> Inl (TypeError ''subscript''))"

subsection \<open>\<^verbatim>\<open>os.path.join\<close> (POSIX)\<close>

fun path_join :: "string \<Rightarrow> string list \<Rightarrow> string" where
  "path_join path [] = path"
| "path_join path (b # p) =
     path_join
       (if prefix ''/'' b then b
        else if path = [] \<or> suffix ''/'' path then path @ b
        else path @ ''/'' @ b) p"

section \<open>The world: requests issued and lines printed\<close>

record request =
  req_method :: string
  req_url :: string
  req_headers :: "(string \<times> string) list"
  req_params :: "(string \<times> json) list option"

type_synonym response = "error + json"

type_synonym event = "request \<times> response"

text \<open>
  \<^verbatim>\<open>issue_request\<close> is imported from \<^verbatim>\<open>figstats/commons.py\<close>; \<^verbatim>\<open>stats.py\<close> only calls
  it. The remote end is a parameter \<open>srv\<close> of every operation: given the exchanges so
  far and a request, it yields the parsed JSON body, or the error that \<^verbatim>\<open>issue_request\<close>
  raises. A call of \<^verbatim>\<open>issue_request\<close> is one request.
\<close>

type_synonym server = "event list \<Rightarrow> request \<Rightarrow> response"

record world =
  requests :: "event list"
  stdout :: "string list"

type_synonym 'a io = "world \<Rightarrow> (error + 'a) \<times> world"

definition return_io :: "'a \<Rightarrow> 'a io" where
  "return_io x w = (Inr x, w)"

definition raise_io :: "error \<Rightarrow> 'a io" where
  "raise_io e w = (Inl e, w)"

definition lift_io :: "error + 'a \<Rightarrow> 'a io" where
  "lift_io r w = (r, w)"

definition bind_io :: "'a io \<Rightarrow> ('a \<Rightarrow> 'b io) \<Rightarrow> 'b io" where
  "bind_io m f w = (case m w of (Inl e, w') \<Rightarrow> (Inl e, w') | (Inr x, w') \<Rightarrow> f x w')"

definition issue_request ::
  "server \<Rightarrow> string \<Rightarrow> string \<Rightarrow> (string \<times> string) list \<Rightarrow> (string \<times> json) list option \<Rightarrow> json io" where
  "issue_request srv method url headers params w =
     (let rq = \<lparr>req_method = method, req_url = url, req_headers = headers, req_params = params\<rparr>;
          rsp = srv (requests w) rq
      in (rsp, w\<lparr>requests := requests w @ [(rq, rsp)]\<rparr>))"

definition print :: "string \<Rightarrow> unit io" where
  "print s w = (Inr (), w\<lparr>stdout := stdout w @ [s]\<rparr>)"

section \<open>The client\<close>

text \<open>
  The class \<^verbatim>\<open>Figshare\<close> (lines 7 to 38). The arguments of \<^verbatim>\<open>__init__\<close> have the types of
  their defaults: the tokens and the institute are strings, tested for being non-empty,
  and \<^verbatim>\<open>institution\<close> is a truth value. An attribute that \<^verbatim>\<open>__init__\<close> sets only under a
  condition is an \<open>option\<close>: reading it when it is \<open>None\<close> is Python's
  \<^verbatim>\<open>AttributeError\<close>.
\<close>

record Figshare =
  stats_baseurl :: string
  institution :: bool
  institute :: "string option"
  stats_baseurl_institute :: "string option"
  basic_headers :: "(string \<times> string) list"
  basic_token :: string
  main_baseurl :: string
  main_baseurl_institute :: "string option"
  api_headers :: "(string \<times> string) list"
  api_token :: string

definition init :: "string \<Rightarrow> string \<Rightarrow> bool \<Rightarrow> string \<Rightarrow> Figshare" where
  "init api_token_arg basic_token_arg institution_arg institute_arg =
     \<lparr>stats_baseurl = ''https://stats.figshare.com'',
      institution = institution_arg,
      institute = (if institute_arg \<noteq> [] then Some institute_arg else None),
      stats_baseurl_institute =
        (if institute_arg \<noteq> [] then Some (path_join ''https://stats.figshare.com'' [institute_arg])
         else None),
      basic_headers =
        (if basic_token_arg \<noteq> []
         then AList.update ''Authorization'' (''Basic '' @ basic_token_arg)
                [(''Content-Type'', ''application/json'')]
         else [(''Content-Type'', ''application/json'')]),
      basic_token = basic_token_arg,
      main_baseurl = ''https://api.figshare.com/v2/account/'',
      main_baseurl_institute =
        (if institution_arg then Some (path_join ''https://api.figshare.com/v2/account/'' [''institution''])
         else None),
      api_headers =
        (if api_token_arg \<noteq> []
         then AList.update ''Authorization'' (''token '' @ api_token_arg)
                [(''Content-Type'', ''application/json'')]
         else [(''Content-Type'', ''application/json'')]),
      api_token = api_token_arg\<rparr>"

definition getattr :: "string \<Rightarrow> 'a option \<Rightarrow> error + 'a" where
  "getattr name v = (case v of Some x \<Rightarrow> Inr x | None \<Rightarrow> Inl (AttributeError name))"

definition stats_endpoint :: "Figshare \<Rightarrow> string \<Rightarrow> bool \<Rightarrow> error + string" where
  "stats_endpoint self link institution_arg =
     (if institution_arg
      then (case getattr ''stats_baseurl_institute'' (stats_baseurl_institute self) of
              Inl e \<Rightarrow> Inl e
            | Inr base \<Rightarrow> Inr (path_join base [link]))
      else Inr (path_join (stats_baseurl self) [link]))"

subsection \<open>Totals and timelines\<close>

text \<open>
  \<^verbatim>\<open>get_totals\<close> (lines 46 to 65), \<^verbatim>\<open>get_user_totals\<close> (lines 67 to 77) and
  \<^verbatim>\<open>get_timeline\<close> (lines 79 to 88). The \<^verbatim>\<open>for\<close> loop over the three counters is a
  recursion over their list that carries \<^verbatim>\<open>total_dict\<close>; each turn builds the URL, sends
  the request and reads the field, and stops at the first of them that raises. The item
  kind and the granularity are strings; the item id is any value, turned into text by
  \<^verbatim>\<open>str\<close>.
\<close>

fun get_totals_loop ::
  "server \<Rightarrow> Figshare \<Rightarrow> json \<Rightarrow> string \<Rightarrow> bool \<Rightarrow> string list \<Rightarrow> (string \<times> json) list
     \<Rightarrow> (string \<times> json) list io" where
  "get_totals_loop srv self item_id item institution_arg [] total_dict = return_io total_dict"
| "get_totals_loop srv self item_id item institution_arg (counter # counters) total_dict =
     bind_io (lift_io (stats_endpoint self (path_join ''total'' [counter, item, py_str item_id])
                         institution_arg))
       (\<lambda>url. bind_io (issue_request srv ''GET'' url (basic_headers self) None)
         (\<lambda>result. bind_io (lift_io (getitem result ''totals''))
           (\<lambda>totals. get_totals_loop srv self item_id item institution_arg counters
                        (AList.update counter totals total_dict))))"

definition get_totals :: "server \<Rightarrow> Figshare \<Rightarrow> json \<Rightarrow> string \<Rightarrow> bool \<Rightarrow> (string \<times> json) list io" where
  "get_totals srv self item_id item institution_arg =
     (if item \<notin> set [''article'', ''author'', ''collection'', ''group'', ''project'']
      then raise_io (ValueError ''Incorrect item type'')
      else get_totals_loop srv self item_id item institution_arg
             [''views'', ''downloads'', ''shares''] [])"

definition get_user_totals :: "server \<Rightarrow> Figshare \<Rightarrow> json \<Rightarrow> (string \<times> json) list io" where
  "get_user_totals srv self author_id = get_totals srv self author_id ''author'' False"

fun get_timeline_loop ::
  "server \<Rightarrow> Figshare \<Rightarrow> json \<Rightarrow> string \<Rightarrow> string \<Rightarrow> bool \<Rightarrow> string list \<Rightarrow> (string \<times> json) list
     \<Rightarrow> (string \<times> json) list io" where
  "get_timeline_loop srv self item_id item granularity institution_arg [] total_dict =
     return_io total_dict"
| "get_timeline_loop srv self item_id item granularity institution_arg (counter # counters) total_dict =
     bind_io (lift_io (stats_endpoint self
                         (path_join ''timeline'' [granularity, counter, item, py_str item_id])
                         institution_arg))
       (\<lambda>url. bind_io (issue_request srv ''GET'' url (basic_headers self) None)
         (\<lambda>result. bind_io (lift_io (getitem result ''timeline''))
           (\<lambda>timeline. get_timeline_loop srv self item_id item granularity institution_arg counters
                          (AList.update counter timeline total_dict))))"

definition get_timeline ::
  "server \<Rightarrow> Figshare \<Rightarrow> json \<Rightarrow> string \<Rightarrow> string \<Rightarrow> bool \<Rightarrow> (string \<times> json) list io" where
  "get_timeline srv self item_id item granularity institution_arg =
     get_timeline_loop srv self item_id item granularity institution_arg
       [''views'', ''downloads'', ''shares''] []"

section \<open>Tables\<close>

text \<open>
  A \<^verbatim>\<open>pandas.DataFrame\<close>: its index, a list of integer labels, one per row, and its
  columns in their order, each with its cells by position. \<^verbatim>\<open>pd.DataFrame(accounts)\<close> and
  \<^verbatim>\<open>reset_index(drop=True)\<close> give the default index \<open>0, 1, 2, \<dots>\<close>; a table that a caller
  passes in has the index the caller left on it. Cells keep the parsed values; a cell
  missing from a record is \<open>JNull\<close> (pandas stores NaN there and may change the column's
  number type).
\<close>

record dataframe =
  df_index :: "int list"
  df_columns :: "(string \<times> json list) list"

definition is_record :: "json \<Rightarrow> bool" where
  "is_record v = (case v of JObj _ \<Rightarrow> True | _ \<Rightarrow> False)"

definition fields :: "json \<Rightarrow> (string \<times> json) list" where
  "fields v = (case v of JObj kvs \<Rightarrow> kvs | _ \<Rightarrow> [])"

fun unique_keys :: "string list \<Rightarrow> string list \<Rightarrow> string list" where
  "unique_keys seen [] = seen"
| "unique_keys seen (k # ks) = unique_keys (if k \<in> set seen then seen else seen @ [k]) ks"

definition cell :: "string \<Rightarrow> json \<Rightarrow> json" where
  "cell k r = (case map_of (fields r) k of Some v \<Rightarrow> v | None \<Rightarrow> JNull)"

text \<open>
  \<^verbatim>\<open>pd.DataFrame(data)\<close>. A list of records gives one row per record and one column per
  key, in the order the keys first appear. What pandas builds from a body of any other
  shape is the parameter \<open>pd_other\<close>.
\<close>

definition DataFrame :: "(json \<Rightarrow> error + dataframe) \<Rightarrow> json \<Rightarrow> error + dataframe" where
  "DataFrame pd_other data =
     (case data of
        JArr recs \<Rightarrow>
          (if list_all is_record recs
           then Inr \<lparr>df_index = map int [0..<length recs],
                     df_columns =
                       map (\<lambda>k. (k, map (cell k) recs))
                         (unique_keys [] (concat (map (map fst \<circ> fields) recs)))\<rparr>
           else pd_other data)
      | _ \<Rightarrow> pd_other data)"

definition getcol :: "dataframe \<Rightarrow> string \<Rightarrow> error + json list" where
  "getcol df c =
     (case map_of (df_columns df) c of Some col \<Rightarrow> Inr col | None \<Rightarrow> Inl (KeyError c))"

definition drop_columns :: "dataframe \<Rightarrow> string \<Rightarrow> error + dataframe" where
  "drop_columns df c =
     (if c \<in> fst ` set (df_columns df)
      then Inr (df\<lparr>df_columns := AList.delete c (df_columns df)\<rparr>)
      else Inl (KeyError c))"

text \<open>
  \<^verbatim>\<open>df.drop(labels).reset_index(drop=True)\<close>: the rows whose label is among \<open>labels\<close> go,
  and the rows that stay are numbered anew from 0.
\<close>

definition keep_rows :: "int list \<Rightarrow> int list \<Rightarrow> 'a list \<Rightarrow> 'a list" where
  "keep_rows idx drop_index col =
     map snd (filter (\<lambda>(l, v). l \<notin> set drop_index) (zip idx col))"

definition drop_rows :: "dataframe \<Rightarrow> int list \<Rightarrow> dataframe" where
  "drop_rows df drop_index =
     \<lparr>df_index = map int [0..<length (keep_rows (df_index df) drop_index (df_index df))],
      df_columns =
        map (\<lambda>(c, col). (c, keep_rows (df_index df) drop_index col)) (df_columns df)\<rparr>"

text \<open>
  \<^verbatim>\<open>df.loc[start:stop, c]\<close> slices the rows by label, both ends included. pandas turns
  each end into a position. A label that occurs in the index gives the position of its
  occurrences, which have to be one run (the first of them for the start, one past the
  last for the stop). A label that does not occur is placed by binary search when the
  index is sorted, upwards or downwards, and is a \<^verbatim>\<open>KeyError\<close> otherwise. The rows
  selected are those from the start position up to the stop position, none when the
  start is not before the stop. On the default index the rows of \<^verbatim>\<open>.loc[0:5]\<close> are the
  first six.
\<close>

definition label_positions :: "int list \<Rightarrow> int \<Rightarrow> nat list" where
  "label_positions idx label = filter (\<lambda>i. idx ! i = label) [0..<length idx]"

definition slice_bound :: "int list \<Rightarrow> int \<Rightarrow> bool \<Rightarrow> error + nat" where
  "slice_bound idx label right =
     (let ps = label_positions idx label
      in if ps \<noteq> []
         then (if ps = [hd ps..<hd ps + length ps]
               then Inr (if right then last ps + 1 else hd ps)
               else Inl (KeyError ''non-unique label''))
         else if sorted idx then Inr (length (filter (\<lambda>x. x < label) idx))
         else if sorted (rev idx) then Inr (length (filter (\<lambda>x. label < x) idx))
         else Inl (KeyError (str_int label)))"

definition loc :: "dataframe \<Rightarrow> int \<Rightarrow> int \<Rightarrow> string \<Rightarrow> error + json list" where
  "loc df start stop c =
     (case getcol df c of
        Inl e \<Rightarrow> Inl e
      | Inr col \<Rightarrow>
          (case slice_bound (df_index df) start False of
             Inl e \<Rightarrow> Inl e
           | Inr i \<Rightarrow>
               (case slice_bound (df_index df) stop True of
                  Inl e \<Rightarrow> Inl e
                | Inr j \<Rightarrow> Inr (take (j - i) (drop i col)))))"

text \<open>
  \<^verbatim>\<open>Series.str.contains(pat)\<close> searches each cell with the regular expression \<open>pat\<close>.
  The one pattern of the source has literal characters and dots; a dot matches any
  character but a newline.
\<close>

fun match_here :: "char option list \<Rightarrow> string \<Rightarrow> bool" where
  "match_here [] s = True"
| "match_here (p # ps) [] = False"
| "match_here (p # ps) (c # cs) =
     ((case p of None \<Rightarrow> c \<noteq> CHR 0x0A | Some x \<Rightarrow> c = x) \<and> match_here ps cs)"

fun re_search :: "char option list \<Rightarrow> string \<Rightarrow> bool" where
  "re_search p [] = match_here p []"
| "re_search p (c # cs) = (match_here p (c # cs) \<or> re_search p cs)"

definition test_pattern :: "char option list" where
  "test_pattern =
     map Some ''-test@email'' @ [None] @ map Some ''arizona'' @ [None] @ map Some ''edu''"

definition is_str :: "json \<Rightarrow> bool" where
  "is_str v = (case v of JStr _ \<Rightarrow> True | _ \<Rightarrow> False)"

text \<open>
  Lines 133 to 137: the labels of the rows whose email is the administrative address,
  then of the rows whose email matches the test pattern, are collected; these rows are
  dropped and the index is reset. A cell of
  the email column that is not a string makes \<^verbatim>\<open>.str.contains\<close>, or the selection
  by its result, raise.
\<close>

definition drop_admin_and_test :: "dataframe \<Rightarrow> error + dataframe" where
  "drop_admin_and_test accounts_df =
     (case getcol accounts_df ''email'' of
        Inl e \<Rightarrow> Inl e
      | Inr email \<Rightarrow>
          (if \<not> list_all is_str email then Inl (TableError ''str.contains'')
           else Inr (drop_rows accounts_df
                  (map fst (filter (\<lambda>(l, v). v = JStr ''data-management@email.arizona.edu'')
                             (zip (df_index accounts_df) email))
                   @ map fst (filter (\<lambda>(l, v). re_search test_pattern (py_str v))
                                (zip (df_index accounts_df) email))))))"

text \<open>
  The result of \<^verbatim>\<open>pd.DataFrame.from_dict(total_dict, orient='index')\<close>: one row per key
  of \<open>total_dict\<close>, labelled by the key, and one column per counter.
\<close>

record totals_frame =
  tf_index :: "string list"
  tf_columns :: "(string \<times> json list) list"

definition from_dict_index :: "(string \<times> (string \<times> json) list) list \<Rightarrow> totals_frame" where
  "from_dict_index total_dict =
     \<lparr>tf_index = map fst total_dict,
      tf_columns =
        map (\<lambda>k. (k, map (\<lambda>(a, row). cell k (JObj row)) total_dict))
          (unique_keys [] (concat (map (map fst \<circ> snd) total_dict)))\<rparr>"

subsection \<open>Institutional accounts\<close>

text \<open>
  \<^verbatim>\<open>get_figshare_id\<close> (lines 90 to 108) and \<^verbatim>\<open>retrieve_institution_users\<close> (lines 110
  to 141). The Python assigns the new column to the table it was given and returns that
  table; the model returns the table with the column.
\<close>

fun get_figshare_id_loop ::
  "server \<Rightarrow> Figshare \<Rightarrow> string \<Rightarrow> json list \<Rightarrow> json list \<Rightarrow> json list io" where
  "get_figshare_id_loop srv self endpoint [] author_id = return_io author_id"
| "get_figshare_id_loop srv self endpoint (institute_id # ids) author_id =
     bind_io (issue_request srv ''GET'' (endpoint @ ''/'' @ py_str institute_id) (api_headers self) None)
       (\<lambda>response. bind_io (lift_io (getitem response ''id''))
         (\<lambda>v. get_figshare_id_loop srv self endpoint ids (author_id @ [v])))"

definition get_figshare_id :: "server \<Rightarrow> Figshare \<Rightarrow> dataframe \<Rightarrow> dataframe io" where
  "get_figshare_id srv self accounts_df =
     bind_io (lift_io (getattr ''main_baseurl_institute'' (main_baseurl_institute self)))
       (\<lambda>base. bind_io (lift_io (getcol accounts_df ''id''))
         (\<lambda>ids. bind_io (get_figshare_id_loop srv self (path_join base [''users'']) ids [])
           (\<lambda>author_id. return_io
              (accounts_df\<lparr>df_columns :=
                 AList.update ''author_id'' author_id (df_columns accounts_df)\<rparr>))))"

definition retrieve_institution_users ::
  "server \<Rightarrow> (json \<Rightarrow> error + dataframe) \<Rightarrow> Figshare \<Rightarrow> bool \<Rightarrow> dataframe io" where
  "retrieve_institution_users srv pd_other self ignore_admin =
     bind_io (lift_io (getattr ''main_baseurl_institute'' (main_baseurl_institute self)))
       (\<lambda>base. bind_io (issue_request srv ''GET'' (path_join base [''accounts'']) (api_headers self)
                          (Some [(''page'', JInt 1), (''page_size'', JInt 1000)]))
         (\<lambda>accounts. bind_io (lift_io (DataFrame pd_other accounts))
           (\<lambda>accounts_df. bind_io (lift_io (drop_columns accounts_df ''institution_id''))
             (\<lambda>accounts_df.
                bind_io (if ignore_admin
                         then bind_io (print ''Excluding administrative and test accounts'')
                                (\<lambda>_. lift_io (drop_admin_and_test accounts_df))
                         else return_io accounts_df)
                  (\<lambda>accounts_df. get_figshare_id srv self accounts_df)))))"

subsection \<open>Institution totals\<close>

text \<open>
  \<^verbatim>\<open>get_institution_totals\<close> (lines 143 to 160). The table argument is \<open>None\<close> when the
  caller gives none; \<^verbatim>\<open>df.loc\<close> on \<open>None\<close> is an \<^verbatim>\<open>AttributeError\<close>. The rows of the loop
  are those of the label slice \<^verbatim>\<open>df.loc[0:5, 'author_id']\<close>.
\<close>

fun get_institution_totals_loop ::
  "server \<Rightarrow> Figshare \<Rightarrow> json list \<Rightarrow> (string \<times> (string \<times> json) list) list
     \<Rightarrow> (string \<times> (string \<times> json) list) list io" where
  "get_institution_totals_loop srv self [] total_dict = return_io total_dict"
| "get_institution_totals_loop srv self (author_id # ids) total_dict =
     bind_io (get_user_totals srv self author_id)
       (\<lambda>totals. get_institution_totals_loop srv self ids
                    (AList.update (py_str author_id) totals total_dict))"

definition get_institution_totals ::
  "server \<Rightarrow> (json \<Rightarrow> error + dataframe) \<Rightarrow> Figshare \<Rightarrow> dataframe option \<Rightarrow> string
     \<Rightarrow> totals_frame io" where
  "get_institution_totals srv pd_other self df by_method =
     bind_io
       (case df of
          None \<Rightarrow>
            bind_io (if by_method = ''author''
                     then bind_io (retrieve_institution_users srv pd_other self False)
                            (\<lambda>accounts_df. return_io (Some accounts_df))
                     else return_io None)
              (\<lambda>df. bind_io (if by_method = ''article'' then print ''Need to retrieve articles''
                              else return_io ())
                (\<lambda>_. return_io df))
        | Some accounts_df \<Rightarrow> return_io (Some accounts_df))
       (\<lambda>df. bind_io (case df of
                        None \<Rightarrow> raise_io (AttributeError ''loc'')
                      | Some accounts_df \<Rightarrow> lift_io (loc accounts_df 0 5 ''author_id''))
         (\<lambda>author_ids. bind_io (get_institution_totals_loop srv self author_ids [])
           (\<lambda>total_dict. return_io (from_dict_index total_dict))))"

section \<open>Vocabulary of the properties\<close>









text \<open>
  \<open>aborts_on_failure m\<close>: from any world, the run of \<open>m\<close> only appends exchanges, and
  when one of them has an error for response, that error is the outcome of \<open>m\<close>.
\<close>

definition aborts_on_failure :: "'a io \<Rightarrow> bool" where
  "aborts_on_failure m =
     (\<forall>w. \<exists>new. requests (snd (m w)) = requests w @ new \<and>
            (\<forall>ev \<in> set new. \<forall>e. snd ev = Inl e \<longrightarrow> fst (m w) = Inl e))"



subsection \<open>Servers, clients and tables of the examples\<close>

definition world0 :: world where
  "world0 = \<lparr>requests = [], stdout = []\<rparr>"

definition totals_42 :: server where
  "totals_42 log rq = Inr (JObj [(''totals'', JInt 42)])"


definition flaky :: server where
  "flaky log rq =
     (if length log = 1 then Inl (RequestFailure ''503'')
      else Inr (JObj [(''totals'', JInt 42)]))"


definition no_frame :: "json \<Rightarrow> error + dataframe" where
  "no_frame data = Inl (TableError ''DataFrame'')"

definition eight_accounts :: dataframe where
  "eight_accounts =
     \<lparr>df_index = [0, 1, 2, 3, 4, 5, 6, 7],
      df_columns =
        [(''id'', map JInt [11, 12, 13, 14, 15, 16, 17, 18]),
         (''author_id'', map JInt [1, 2, 3, 4, 5, 6, 7, 8])]\<rparr>"


section \<open>The monad\<close>

lemma bind_return [simp]: "bind_io (return_io x) f = f x"
  by (rule ext) (simp add: bind_io_def return_io_def)

lemma bind_raise [simp]: "bind_io (raise_io e) f = raise_io e"
  by (rule ext) (simp add: bind_io_def raise_io_def)

lemma bind_lift_Inr [simp]: "bind_io (lift_io (Inr x)) f = f x"
  by (rule ext) (simp add: bind_io_def lift_io_def)

lemma bind_lift_Inl [simp]: "bind_io (lift_io (Inl e)) f = raise_io e"
  by (rule ext) (simp add: bind_io_def lift_io_def raise_io_def)





lemma stats_endpoint_False [simp]:
  "stats_endpoint self link False = Inr (path_join (stats_baseurl self) [link])"
  by (simp add: stats_endpoint_def)



section \<open>Runs against a server whose responses carry the field\<close>






section \<open>Keys of the institution totals\<close>




section \<open>The label slice on the default index\<close>





section \<open>A failed request ends the run\<close>

lemma aborts_return: "aborts_on_failure (return_io x)"
  by (simp add: aborts_on_failure_def return_io_def)

lemma aborts_raise: "aborts_on_failure (raise_io e)"
  by (simp add: aborts_on_failure_def raise_io_def)

lemma aborts_lift: "aborts_on_failure (lift_io r)"
  by (simp add: aborts_on_failure_def lift_io_def)

lemma aborts_print: "aborts_on_failure (print s)"
  by (simp add: aborts_on_failure_def print_def)

lemma aborts_issue_request: "aborts_on_failure (issue_request srv m u h p)"
  by (simp add: aborts_on_failure_def issue_request_def Let_def)

lemma aborts_bind:
  assumes m: "aborts_on_failure m" and f: "\<And>x. aborts_on_failure (f x)"
  shows "aborts_on_failure (bind_io m f)"
  unfolding aborts_on_failure_def
proof
  fix w
  obtain r1 w1 where mw: "m w = (r1, w1)" by (cases "m w")
  from m obtain new1 where n1: "requests w1 = requests w @ new1"
    and a1: "\<forall>ev \<in> set new1. \<forall>e. snd ev = Inl e \<longrightarrow> r1 = Inl e"
    unfolding aborts_on_failure_def using mw by (metis fst_conv snd_conv)
  show "\<exists>new. requests (snd (bind_io m f w)) = requests w @ new \<and>
            (\<forall>ev \<in> set new. \<forall>e. snd ev = Inl e \<longrightarrow> fst (bind_io m f w) = Inl e)"
  proof (cases r1)
    case (Inl e1)
    then have "bind_io m f w = (Inl e1, w1)" by (simp add: bind_io_def mw)
    with n1 a1 Inl show ?thesis by auto
  next
    case (Inr x)
    then have b: "bind_io m f w = f x w1" by (simp add: bind_io_def mw)
    from f [of x] obtain new2 where n2: "requests (snd (f x w1)) = requests w1 @ new2"
      and a2: "\<forall>ev \<in> set new2. \<forall>e. snd ev = Inl e \<longrightarrow> fst (f x w1) = Inl e"
      unfolding aborts_on_failure_def by blast
    from a1 Inr have clean: "\<forall>ev \<in> set new1. \<forall>e. snd ev \<noteq> Inl e" by auto
    have "requests (snd (bind_io m f w)) = requests w @ (new1 @ new2)"
      by (simp add: b n1 n2)
    moreover have "\<forall>ev \<in> set (new1 @ new2). \<forall>e. snd ev = Inl e \<longrightarrow> fst (bind_io m f w) = Inl e"
      using clean a2 by (auto simp: b)
    ultimately show ?thesis by blast
  qed
qed

lemma aborts_if:
  "aborts_on_failure a \<Longrightarrow> aborts_on_failure b \<Longrightarrow> aborts_on_failure (if c then a else b)"
  by simp

lemma aborts_case_option:
  "aborts_on_failure a \<Longrightarrow> (\<And>x. aborts_on_failure (b x))
     \<Longrightarrow> aborts_on_failure (case v of None \<Rightarrow> a | Some x \<Rightarrow> b x)"
  by (cases v) simp_all

lemmas aborts_intros =
  aborts_bind aborts_return aborts_raise aborts_lift aborts_print aborts_issue_request
  aborts_if aborts_case_option


lemma aborts_get_totals_loop:
  "aborts_on_failure (get_totals_loop srv self item_id item institution_arg counters total_dict)"
proof (induction counters arbitrary: total_dict)
  case Nil
  show ?case by (simp add: aborts_return)
next
  case (Cons counter counters)
  show ?case
    unfolding get_totals_loop.simps
    by (intro aborts_intros Cons.IH)
qed

lemma aborts_get_totals: "aborts_on_failure (get_totals srv self item_id item institution_arg)"
  unfolding get_totals_def by (intro aborts_intros aborts_get_totals_loop)

lemma aborts_get_timeline_loop:
  "aborts_on_failure
     (get_timeline_loop srv self item_id item granularity institution_arg counters total_dict)"
proof (induction counters arbitrary: total_dict)
  case Nil
  show ?case by (simp add: aborts_return)
next
  case (Cons counter counters)
  show ?case
    unfolding get_timeline_loop.simps
    by (intro aborts_intros Cons.IH)
qed

lemma aborts_get_timeline:
  "aborts_on_failure (get_timeline srv self item_id item granularity institution_arg)"
  unfolding get_timeline_def by (rule aborts_get_timeline_loop)

lemma aborts_get_figshare_id_loop:
  "aborts_on_failure (get_figshare_id_loop srv self endpoint ids author_id)"
proof (induction ids arbitrary: author_id)
  case Nil
  show ?case by (simp add: aborts_return)
next
  case (Cons institute_id ids)
  show ?case
    unfolding get_figshare_id_loop.simps
    by (intro aborts_intros Cons.IH)
qed

lemma aborts_get_figshare_id: "aborts_on_failure (get_figshare_id srv self accounts_df)"
  unfolding get_figshare_id_def
  by (intro aborts_intros aborts_get_figshare_id_loop)

lemma aborts_retrieve_institution_users:
  "aborts_on_failure (retrieve_institution_users srv pd_other self ignore_admin)"
  unfolding retrieve_institution_users_def
  by (intro aborts_intros aborts_get_figshare_id)

lemma aborts_get_institution_totals_loop:
  "aborts_on_failure (get_institution_totals_loop srv self ids total_dict)"
proof (induction ids arbitrary: total_dict)
  case Nil
  show ?case by (simp add: aborts_return)
next
  case (Cons author_id ids)
  show ?case
    unfolding get_institution_totals_loop.simps get_user_totals_def
    by (intro aborts_intros aborts_get_totals Cons.IH)
qed

lemma aborts_get_institution_totals:
  "aborts_on_failure (get_institution_totals srv pd_other self df by_method)"
  unfolding get_institution_totals_def
  by (intro aborts_intros aborts_get_institution_totals_loop aborts_retrieve_institution_users)


section \<open>The requests of a run, in order\<close>











section \<open>Requests without query parameters\<close>











section \<open>Claims\<close>

text \<open>
  C5. For every item kind outside \<open>article\<close>, \<open>author\<close>, \<open>collection\<close>, \<open>group\<close>,
  \<open>project\<close>, \<open>get_totals\<close> raises \<open>ValueError\<close> and leaves the world as it was: the
  check comes before any request.
\<close>

theorem get_totals_rejects_item:
  assumes "item \<notin> set [''article'', ''author'', ''collection'', ''group'', ''project'']"
  shows "get_totals srv self item_id item institution_arg w
           = (Inl (ValueError ''Incorrect item type''), w)"
  using assms by (simp add: get_totals_def raise_io_def)

theorem get_totals_rejects_item_witness:
  "''dataset'' \<notin> set [''article'', ''author'', ''collection'', ''group'', ''project''] \<and>
   get_totals totals_42 (init [] [] False []) (JInt 99) ''dataset'' False world0
     = (Inl (ValueError ''Incorrect item type''), world0) \<and>
   requests (snd (get_totals totals_42 (init [] [] False []) (JInt 99) ''dataset'' False world0)) = []"
proof -
  have h: "''dataset'' \<notin> set [''article'', ''author'', ''collection'', ''group'', ''project'']"
    by simp
  show ?thesis
    using h get_totals_rejects_item [OF h, of totals_42 "init [] [] False []" "JInt 99" False world0]
    by (simp add: world0_def)
qed

text \<open>
  C10. With a table supplied, \<open>get_institution_totals\<close> gives the same outcome and the
  same world, so the same requests in the same order, for any two values of
  \<open>by_method\<close>.
\<close>

theorem by_method_ignored:
  "get_institution_totals srv pd_other self (Some df) by_method w
     = get_institution_totals srv pd_other self (Some df) by_method' w"
  by (simp add: get_institution_totals_def)

theorem by_method_ignored_witness:
  "get_institution_totals totals_42 no_frame (init [] [] False []) (Some eight_accounts) ''author'' world0
     = get_institution_totals totals_42 no_frame (init [] [] False []) (Some eight_accounts) ''article'' world0"
  by (rule by_method_ignored)

text \<open>
  C3, on the code. With no table and \<open>by_method = article\<close>, \<open>get_institution_totals\<close>
  prints \<open>Need to retrieve articles\<close>, sends no request, and then ends with the
  \<^verbatim>\<open>AttributeError\<close> of \<^verbatim>\<open>df.loc\<close> on the table it never got: the branch of line 151 leaves
  \<^verbatim>\<open>df\<close> at \<open>None\<close> and falls into the loop of line 155. No table, empty or not, is
  returned.
\<close>

theorem article_path_raises:
  "get_institution_totals srv pd_other self None ''article'' w
     = (Inl (AttributeError ''loc''), w\<lparr>stdout := stdout w @ [''Need to retrieve articles'']\<rparr>)"
  by (simp add: get_institution_totals_def bind_io_def return_io_def raise_io_def print_def)

theorem article_path_raises_witness:
  "get_institution_totals totals_42 no_frame (init [] [] True []) None ''article'' world0
     = (Inl (AttributeError ''loc''), \<lparr>requests = [], stdout = [''Need to retrieve articles'']\<rparr>)"
  using article_path_raises [of totals_42 no_frame "init [] [] True []" world0]
  by (simp add: world0_def)

text \<open>
  C1, on the code. On a client with an institute, \<open>get_totals\<close> with the institution
  flag set sends its three requests to the institution endpoint, and with the flag
  unset to the plain one: the flag decides the URL.
\<close>

theorem get_totals_flag_decides_endpoint:
  "map (req_url \<circ> fst)
     (requests (snd (get_totals totals_42 (init [] [] False ''ua'') (JInt 99) ''article'' True world0)))
     = [''https://stats.figshare.com/ua/total/views/article/99'',
        ''https://stats.figshare.com/ua/total/downloads/article/99'',
        ''https://stats.figshare.com/ua/total/shares/article/99''] \<and>
   map (req_url \<circ> fst)
     (requests (snd (get_totals totals_42 (init [] [] False ''ua'') (JInt 99) ''article'' False world0)))
     = [''https://stats.figshare.com/total/views/article/99'',
        ''https://stats.figshare.com/total/downloads/article/99'',
        ''https://stats.figshare.com/total/shares/article/99'']"
  by code_simp

text \<open>
  C9. On a client built without an institute, \<open>stats_endpoint\<close> with the institution
  flag raises \<open>AttributeError\<close>; it is a pure function and sends nothing. The two
  operations that call it with the flag set fail with the world as it was, so with no
  request sent (\<open>get_totals\<close> checks the item kind first).
\<close>

theorem stats_endpoint_needs_institute:
  "stats_endpoint (init api_token_arg basic_token_arg institution_arg []) link True
     = Inl (AttributeError ''stats_baseurl_institute'') \<and>
   get_totals srv (init api_token_arg basic_token_arg institution_arg []) item_id item True w
     = (Inl (if item \<in> set [''article'', ''author'', ''collection'', ''group'', ''project'']
             then AttributeError ''stats_baseurl_institute''
             else ValueError ''Incorrect item type''), w) \<and>
   get_timeline srv (init api_token_arg basic_token_arg institution_arg []) item_id item granularity True w
     = (Inl (AttributeError ''stats_baseurl_institute''), w)"
proof -
  have ep: "\<And>link. stats_endpoint (init api_token_arg basic_token_arg institution_arg []) link True
              = Inl (AttributeError ''stats_baseurl_institute'')"
    by (simp add: stats_endpoint_def init_def getattr_def)
  show ?thesis
    by (simp add: ep get_totals_def get_timeline_def raise_io_def del: path_join.simps)
qed

theorem stats_endpoint_needs_institute_witness:
  "stats_endpoint (init [] [] False []) ''total/views/article/99'' True
     = Inl (AttributeError ''stats_baseurl_institute'') \<and>
   get_totals totals_42 (init [] [] False []) (JInt 99) ''article'' True world0
     = (Inl (AttributeError ''stats_baseurl_institute''), world0) \<and>
   get_timeline totals_42 (init [] [] False []) (JInt 99) ''article'' ''day'' True world0
     = (Inl (AttributeError ''stats_baseurl_institute''), world0)"
  using stats_endpoint_needs_institute
          [of "[]" "[]" False "''total/views/article/99''" totals_42 "JInt 99" "''article''" world0 "''day''"]
  by simp





text \<open>
  C4. In \<open>get_totals\<close>, \<open>get_timeline\<close>, \<open>get_figshare_id\<close> and
  \<open>get_institution_totals\<close>, from any world: when the server answers one of the
  requests of the run with an error, the operation ends with that very error. Its
  outcome is then an error, so no dictionary or table, partial or not, is returned.
\<close>

theorem failed_request_aborts:
  "aborts_on_failure (get_totals srv self item_id item institution_arg) \<and>
   aborts_on_failure (get_timeline srv self item_id item granularity institution_arg) \<and>
   aborts_on_failure (get_figshare_id srv self accounts_df) \<and>
   aborts_on_failure (get_institution_totals srv pd_other self df by_method)"
  by (intro conjI aborts_get_totals aborts_get_timeline aborts_get_figshare_id
        aborts_get_institution_totals)

theorem failed_request_aborts_witness:
  "snd (requests (snd (get_totals flaky (init [] [] False []) (JInt 99) ''article'' False world0)) ! 1)
     = Inl (RequestFailure ''503'') \<and>
   length (requests (snd (get_totals flaky (init [] [] False []) (JInt 99) ''article'' False world0))) = 2 \<and>
   fst (get_totals flaky (init [] [] False []) (JInt 99) ''article'' False world0)
     = Inl (RequestFailure ''503'')"
proof -
  let ?run = "get_totals flaky (init [] [] False []) (JInt 99) ''article'' False world0"
  have log: "snd (requests (snd ?run) ! 1) = Inl (RequestFailure ''503'') \<and>
             length (requests (snd ?run)) = 2"
    by code_simp
  have rw: "requests world0 = []"
    by (simp add: world0_def)
  from failed_request_aborts
         [of flaky "init [] [] False []" "JInt 99" "''article''" False "''day''" eight_accounts no_frame None "[]"]
  have "aborts_on_failure (get_totals flaky (init [] [] False []) (JInt 99) ''article'' False)"
    by simp
  then obtain new where new: "requests (snd ?run) = requests world0 @ new"
    and ab: "\<forall>ev \<in> set new. \<forall>e. snd ev = Inl e \<longrightarrow> fst ?run = Inl e"
    unfolding aborts_on_failure_def by blast
  from new log have "new ! 1 \<in> set new" and "snd (new ! 1) = Inl (RequestFailure ''503'')"
    by (simp_all add: rw)
  with ab have "fst ?run = Inl (RequestFailure ''503'')"
    by blast
  with log show ?thesis by simp
qed












end
